theory Spec2Isabelle
  imports Main "HOL-Library.Sublist"
begin

section \<open>TelegrativeAI: the bot's handlers as state transformers\<close>

text \<open>
  The handlers of \<^verbatim>\<open>telegram_process.py\<close> are asynchronous procedures that read an
  update, call hosted services and send replies. Here each one is a function from the
  world before the call to a result and the world after it. A Python exception is the
  result \<open>Inl e\<close>; everything done before the exception was raised stays in the world
  that is returned with it.

  The hosted services (OpenAI, the HTTP download, the PDF loader, the text splitter and
  the vector store) are not part of the repository: they are the fields of the record
  \<open>env\<close>, and every general theorem holds for every \<open>env\<close>. Each of them may fail,
  except the splitter. The requests to Telegram (sending a reply, deleting a message,
  answering a button press, resolving a file id, downloading a voice file) are fields of
  \<open>env\<close> too and may fail as well; a request that is delivered is appended to the trace
  of the world, a request that fails raises and leaves the trace as it was. A call to a
  model is appended to the trace when it is made, whether it fails or not.
  \<^verbatim>\<open>time.sleep\<close> has no effect here.
\<close>

subsection \<open>Errors, sessions, updates\<close>

datatype error = NameError | KeyError | AttributeError | ServiceError string

text \<open>
  \<^verbatim>\<open>OpenAIModelManager(api_key)\<close> holds an \<^verbatim>\<open>OpenAIHelper\<close> and a \<^verbatim>\<open>LangChainHelper\<close>,
  both built from the key and from constants.
\<close>

record manager =
  api_key :: string

record document =
  file_id :: string
  mime_type :: "string option"

text \<open>
  The fields of \<^verbatim>\<open>update.message\<close> that the handlers read. \<open>reply_to_message\<close> is
  \<open>Some r\<close> when the message answers an earlier one, \<open>r\<close> being the earlier message's
  text (\<open>None\<close> when it has none). \<open>bot_command\<close> is the name of the command entity at
  the start of the text, as the Telegram server marks it (\<open>Some ''start''\<close> for
  \<^verbatim>\<open>/start\<close>), and \<open>None\<close> when the text does not begin with a command.
\<close>

record message =
  from_user_id :: nat
  from_user_full_name :: string
  msg_text :: "string option"
  msg_caption :: "string option"
  msg_voice :: "string option"
  msg_document :: "document option"
  reply_to_message :: "string option option"
  bot_command :: "string option"

text \<open>An update is a message or a button press (the sender and the button's payload).\<close>

datatype update = Message message | CallbackQuery nat string

fun update_message :: "update \<Rightarrow> message option" where
  "update_message (Message m) = Some m"
| "update_message (CallbackQuery uid d) = None"

fun effective_user :: "update \<Rightarrow> nat" where
  "effective_user (Message m) = from_user_id m"
| "effective_user (CallbackQuery uid d) = uid"

subsection \<open>The trace of what a handler sends and calls\<close>

datatype event =
    ReplyText string
  | ReplyMarkdown string
  | ReplyAnimation string
  | ReplyPhoto string string
  | ReplyKeyboard string "(string \<times> string) list"
  | DeleteMessage
  | AnswerQuery
  | CheckApiKey string
  | ChatMessage string string
  | TranscribeVoice string string
  | CreateImage string string
  | RagWithDocuments string string string
  | RagWithDocumentsFromText string string string


fun validated_keys :: "event list \<Rightarrow> string list" where
  "validated_keys [] = []"
| "validated_keys (CheckApiKey k # es) = k # validated_keys es"
| "validated_keys (e # es) = validated_keys es"

fun chat_prompts :: "event list \<Rightarrow> string list" where
  "chat_prompts [] = []"
| "chat_prompts (ChatMessage k p # es) = p # chat_prompts es"
| "chat_prompts (e # es) = chat_prompts es"

fun rag_questions :: "event list \<Rightarrow> string list" where
  "rag_questions [] = []"
| "rag_questions (RagWithDocuments k f p # es) = p # rag_questions es"
| "rag_questions (RagWithDocumentsFromText k t p # es) = p # rag_questions es"
| "rag_questions (e # es) = rag_questions es"

subsection \<open>The world and the services\<close>

text \<open>
  \<open>user\<close> and \<open>user_name\<close> are the module's global variables, unbound (\<open>None\<close>) until
  \<^verbatim>\<open>start\<close> assigns them. \<open>user_data\<close> is the framework's store behind
  \<^verbatim>\<open>context.user_data\<close>: one dictionary for each sender of updates. \<open>disk\<close> is the set
  of paths of the files that exist.
\<close>

record world =
  user :: "nat option"
  user_name :: "string option"
  user_data :: "nat \<Rightarrow> (nat \<rightharpoonup> manager)"
  disk :: "string set"
  trace :: "event list"

record env =
  models_list :: "string \<Rightarrow> error option"
  chat_completion :: "string \<Rightarrow> string \<Rightarrow> error + string"
  transcription :: "string \<Rightarrow> string \<Rightarrow> error + string"
  images_generate :: "string \<Rightarrow> string \<Rightarrow> error + string \<times> string"
  telegram :: "event list \<Rightarrow> event \<Rightarrow> error option"
  get_file :: "string \<Rightarrow> error + string"
  download_as_bytearray :: "string \<Rightarrow> error option"
  requests_get :: "string \<Rightarrow> error + string"
  pdf_load :: "string \<Rightarrow> error + string list"
  split_text :: "string \<Rightarrow> string list"
  retrieve :: "string \<Rightarrow> string list \<Rightarrow> string \<Rightarrow> error + string list"
  tmp_name :: "string set \<Rightarrow> string"

text \<open>
  \<open>models_list k\<close> is \<open>None\<close> when listing the models with key \<open>k\<close> succeeds.
  \<open>telegram tr e\<close> is \<open>None\<close> when Telegram accepts the request \<open>e\<close> made after the
  requests and calls \<open>tr\<close>, and the error it raises otherwise (a text that does not parse as
  Markdown, the network). \<open>get_file fid\<close> is the path of the file \<open>fid\<close> on Telegram's
  server, or the error of \<^verbatim>\<open>context.bot.get_file\<close>; \<open>download_as_bytearray\<close> is \<open>None\<close>
  when the download of that file succeeds.
  \<open>split_text\<close> is \<^verbatim>\<open>RecursiveCharacterTextSplitter(chunk_size=1000, chunk_overlap=0,
  length_function=len)\<close> on one text. \<open>retrieve k chunks q\<close> stands for building the FAISS
  store from the chunks with the embeddings of key \<open>k\<close> and asking its retriever for the
  documents relevant to \<open>q\<close>, in the order the retriever returns them. \<open>tmp_name\<close> is the
  name \<^verbatim>\<open>NamedTemporaryFile\<close> chooses.
\<close>

type_synonym 'a outcome = "(error + 'a) \<times> world"

definition emit :: "event \<Rightarrow> world \<Rightarrow> world" where
  "emit e s = s\<lparr>trace := trace s @ [e]\<rparr>"

subsection \<open>Strings\<close>

definition lower_char :: "char \<Rightarrow> char" where
  "lower_char ch =
     (case map_of (zip ''ABCDEFGHIJKLMNOPQRSTUVWXYZ'' ''abcdefghijklmnopqrstuvwxyz'') ch of
        Some l \<Rightarrow> l
      | None \<Rightarrow> ch)"

definition lower :: "string \<Rightarrow> string" where
  "lower t = map lower_char t"

fun contains :: "string \<Rightarrow> string \<Rightarrow> bool" where
  "contains sub [] = (sub = [])"
| "contains sub (ch # cs) = (prefix sub (ch # cs) \<or> contains sub cs)"

text \<open>How an f-string prints a text that may be \<^verbatim>\<open>None\<close>.\<close>

fun fstr :: "string option \<Rightarrow> string" where
  "fstr None = ''None''"
| "fstr (Some t) = t"

subsection \<open>Sequencing\<close>

text \<open>Run \<open>f\<close> on the value of a step that returned; pass an exception on.\<close>

definition bind :: "'a outcome \<Rightarrow> ('a \<Rightarrow> world \<Rightarrow> 'b outcome) \<Rightarrow> 'b outcome" where
  "bind r f = (case r of (Inl e, s) \<Rightarrow> (Inl e, s) | (Inr x, s) \<Rightarrow> f x s)"

text \<open>A request to Telegram: delivered and recorded, or refused with an exception.\<close>

definition send :: "env \<Rightarrow> event \<Rightarrow> world \<Rightarrow> unit outcome" where
  "send env e s =
     (case telegram env (trace s) e of
        None \<Rightarrow> (Inr (), emit e s)
      | Some err \<Rightarrow> (Inl err, s))"

text \<open>
  \<^verbatim>\<open>await update.message.reply_...(...)\<close> and \<^verbatim>\<open>await update.message.delete()\<close>: an
  AttributeError when the update has no message, a request to Telegram otherwise.
\<close>

definition reply :: "env \<Rightarrow> update \<Rightarrow> event \<Rightarrow> world \<Rightarrow> unit outcome" where
  "reply env upd e s =
     (case update_message upd of
        None \<Rightarrow> (Inl AttributeError, s)
      | Some m \<Rightarrow> send env e s)"

text \<open>\<^verbatim>\<open>context.user_data[user]\<close>\<close>

definition current_manager :: "update \<Rightarrow> world \<Rightarrow> manager outcome" where
  "current_manager upd s =
     (case user s of
        None \<Rightarrow> (Inl NameError, s)
      | Some u \<Rightarrow>
          (case user_data s (effective_user upd) u of
             None \<Rightarrow> (Inl KeyError, s)
           | Some mgr \<Rightarrow> (Inr mgr, s)))"

section \<open>Model Client (helpers/openai-helper)\<close>

definition chat_message :: "env \<Rightarrow> manager \<Rightarrow> string \<Rightarrow> world \<Rightarrow> string outcome" where
  "chat_message env mgr prompt s =
     (chat_completion env (api_key mgr) prompt, emit (ChatMessage (api_key mgr) prompt) s)"

definition transcribe_voice :: "env \<Rightarrow> manager \<Rightarrow> string \<Rightarrow> world \<Rightarrow> string outcome" where
  "transcribe_voice env mgr audio_file s =
     (transcription env (api_key mgr) audio_file,
      emit (TranscribeVoice (api_key mgr) audio_file) s)"

definition create_image ::
  "env \<Rightarrow> manager \<Rightarrow> string \<Rightarrow> world \<Rightarrow> (string \<times> string) outcome" where
  "create_image env mgr prompt s =
     (images_generate env (api_key mgr) prompt, emit (CreateImage (api_key mgr) prompt) s)"

definition check_api_key :: "env \<Rightarrow> string \<Rightarrow> world \<Rightarrow> unit outcome" where
  "check_api_key env k s =
     ((case models_list env k of None \<Rightarrow> Inr () | Some e \<Rightarrow> Inl e), emit (CheckApiKey k) s)"

section \<open>Session Manager (model-manager)\<close>

text \<open>The constructor builds the two helpers and validates the key at once.\<close>

definition OpenAIModelManager :: "env \<Rightarrow> string \<Rightarrow> world \<Rightarrow> manager outcome" where
  "OpenAIModelManager env k s =
     bind (check_api_key env k s) (\<lambda>_ s1. (Inr \<lparr>api_key = k\<rparr>, s1))"

section \<open>Retrieval Helper (helpers/langchain-helper)\<close>

definition split_documents :: "env \<Rightarrow> string list \<Rightarrow> string list" where
  "split_documents env raw_documents = concat (map (split_text env) raw_documents)"

text \<open>The loop \<^verbatim>\<open>for document in relevant_documents: context_data += document.page_content\<close>.\<close>

definition context_data :: "string list \<Rightarrow> string" where
  "context_data relevant_documents = foldl (\<lambda>acc page_content. acc @ page_content) [] relevant_documents"

text \<open>
  The f-string of both retrieval operations. The literal opens with four double quotes,
  so its text starts with a double quote; its second and third line are indented by eight
  blanks; after the closing double quote it ends with a line feed and eight blanks.
\<close>

definition final_prompt :: "string \<Rightarrow> string \<Rightarrow> string" where
  "final_prompt prompt ctx =
     [CHR 0x22] @ ''Here is your question: '' @ prompt @
     ''\<newline>        We have the following information to answer it: '' @ ctx @
     ''.\<newline>        Use only the information provided here to answer the question. Do not go beyond this.'' @
     [CHR 0x22] @ ''\<newline>        ''"

definition rag_with_documents ::
  "env \<Rightarrow> manager \<Rightarrow> string \<Rightarrow> string \<Rightarrow> world \<Rightarrow> string outcome" where
  "rag_with_documents env mgr filepath prompt s =
     (let s0 = emit (RagWithDocuments (api_key mgr) filepath prompt) s in
      case pdf_load env filepath of
        Inl e \<Rightarrow> (Inl e, s0)
      | Inr raw_documents \<Rightarrow>
          (case retrieve env (api_key mgr) (split_documents env raw_documents) prompt of
             Inl e \<Rightarrow> (Inl e, s0)
           | Inr relevant_documents \<Rightarrow>
               chat_message env mgr (final_prompt prompt (context_data relevant_documents)) s0))"

definition rag_with_documents_from_text ::
  "env \<Rightarrow> manager \<Rightarrow> string \<Rightarrow> string \<Rightarrow> world \<Rightarrow> string outcome" where
  "rag_with_documents_from_text env mgr text_content prompt s =
     (let s0 = emit (RagWithDocumentsFromText (api_key mgr) text_content prompt) s in
      case retrieve env (api_key mgr) (split_documents env [text_content]) prompt of
        Inl e \<Rightarrow> (Inl e, s0)
      | Inr relevant_documents \<Rightarrow>
          chat_message env mgr (final_prompt prompt (context_data relevant_documents)) s0)"

section \<open>Bot Orchestrator (telegram-process)\<close>

text \<open>
  The text \<^verbatim>\<open>check_user\<close> sends to a user without a session: the lines of the literal,
  each stripped of its leading blanks, joined by line feeds.
\<close>

definition start_message :: string where
  "start_message =
     ''\<newline>Here are the skills I can offer you,\<newline>'' @
     ''\<newline>-> text chat'' @
     ''\<newline>-> have voice conversations'' @
     ''\<newline>-> create images based on your requests.'' @
     ''\<newline>-> analyze and review documents you provide.\<newline>'' @
     ''\<newline>To perform these tasks, you will need to provide your OpenAI API key.'' @
     ''\<newline>Note: Please do not share your personal information and use a test API key. If you want to delete API key, you can use /off code.\<newline>''"

definition hello :: "env \<Rightarrow> update \<Rightarrow> world \<Rightarrow> unit outcome" where
  "hello env upd s =
     (case update_message upd of
        None \<Rightarrow> (Inl AttributeError, s)
      | Some m \<Rightarrow>
          (case user_name s of
             None \<Rightarrow> (Inl NameError, s)
           | Some n \<Rightarrow> send env (ReplyMarkdown (''Hello '' @ n @ '' , What Can I Help With ?'')) s))"

definition question :: "env \<Rightarrow> update \<Rightarrow> world \<Rightarrow> unit outcome" where
  "question env upd s =
     reply env upd
       (ReplyKeyboard ''Would you like to continue?'' [(''Yes'', ''yes''), (''No'', ''no'')]) s"

text \<open>The echo of a key: its first three and its last three characters.\<close>

definition key_echo :: "string \<Rightarrow> string" where
  "key_echo k = ''Key : '' @ take 3 k @ ''*************'' @ drop (length k - 3) k @ '' success''"

text \<open>\<^verbatim>\<open>context.user_data[user] = manager\<close>\<close>

definition store_manager :: "update \<Rightarrow> nat \<Rightarrow> manager \<Rightarrow> world \<Rightarrow> world" where
  "store_manager upd u mgr s =
     s\<lparr>user_data := (user_data s)(effective_user upd := (user_data s (effective_user upd))(u \<mapsto> mgr))\<rparr>"

definition check_user :: "env \<Rightarrow> update \<Rightarrow> string option \<Rightarrow> world \<Rightarrow> unit outcome" where
  "check_user env upd data s =
     (let ask_for_key =
            bind (reply env upd (ReplyMarkdown start_message) s) (\<lambda>_ s1. question env upd s1) in
      case user s of
        None \<Rightarrow> (Inl NameError, s)
      | Some u \<Rightarrow>
          if user_data s (effective_user upd) u = None then
            (case data of
               None \<Rightarrow> ask_for_key
             | Some k \<Rightarrow>
                 if k \<noteq> [] then
                   bind (OpenAIModelManager env k s) (\<lambda>mgr s1.
                   bind (reply env upd (ReplyText (key_echo k)) s1) (\<lambda>_ s2.
                   bind (hello env upd s2) (\<lambda>_ s3.
                   (Inr (), store_manager upd u mgr s3))))
                 else ask_for_key)
          else hello env upd s)"

definition greeting :: "string \<Rightarrow> string" where
  "greeting n = ''Hello '' @ n @ '', I'm TelegrativeAI '' @
     [CHR 0xF0, CHR 0x9F, CHR 0xA4, CHR 0x96, CHR 0xF0, CHR 0x9F, CHR 0x99, CHR 0x82]"

definition start_animation :: string where
  "start_animation = ''https://i.giphy.com/media/v1.Y2lkPTc5MGI3NjExZnpibnB3OWd2OWtvdm13cWl1NGFhaHQ3eDJvZnN1MHJ1a3I4NmFldyZlcD12MV9pbnRlcm5hbF9naWZfYnlfaWQmY3Q9Zw/JFz7YZA0vhiGlAYCSn/giphy.gif''"

definition start :: "env \<Rightarrow> update \<Rightarrow> world \<Rightarrow> unit outcome" where
  "start env upd s =
     (case update_message upd of
        None \<Rightarrow> (Inl AttributeError, s)
      | Some m \<Rightarrow>
          (let s1 = s\<lparr>user := Some (from_user_id m), user_name := Some (from_user_full_name m)\<rparr>
           in
             bind (send env (ReplyMarkdown (greeting (from_user_full_name m))) s1) (\<lambda>_ s2.
             bind (send env (ReplyAnimation start_animation) s2) (\<lambda>_ s3.
             check_user env upd None s3))))"

definition handle_file :: "env \<Rightarrow> update \<Rightarrow> world \<Rightarrow> unit outcome" where
  "handle_file env upd s =
     (case update_message upd of
        None \<Rightarrow> (Inl AttributeError, s)
      | Some m \<Rightarrow>
          (case msg_document m of
             None \<Rightarrow> (Inl AttributeError, s)
           | Some d \<Rightarrow>
               (case get_file env (file_id d) of
                  Inl e \<Rightarrow> (Inl e, s)
                | Inr file_path \<Rightarrow>
                    (let caption =
                           (case msg_caption m of None \<Rightarrow> ''Summarize this file'' | Some c \<Rightarrow> c)
                     in
                       if mime_type d = Some ''text/plain'' then
                         (case requests_get env file_path of
                            Inl e \<Rightarrow> (Inl e, s)
                          | Inr response_text \<Rightarrow>
                              bind (current_manager upd s) (\<lambda>mgr s1.
                              bind (rag_with_documents_from_text env mgr response_text caption s1)
                                (\<lambda>msg s2. reply env upd (ReplyText msg) s2)))
                       else if mime_type d = Some ''application/pdf'' then
                         bind (current_manager upd s) (\<lambda>mgr s1.
                         bind (rag_with_documents env mgr file_path caption s1) (\<lambda>msg s2.
                         reply env upd (ReplyText msg) s2))
                       else reply env upd (ReplyText ''Please send the file in PDF or TXT format'') s))))"

text \<open>
  \<^verbatim>\<open>send_image\<close> is only called from \<^verbatim>\<open>get_message\<close>, on a message with a text; for a
  message without one the image service is taken to refuse the missing prompt.
\<close>

definition send_image :: "env \<Rightarrow> update \<Rightarrow> world \<Rightarrow> unit outcome" where
  "send_image env upd s =
     bind (current_manager upd s) (\<lambda>mgr s1.
       (case update_message upd of
          None \<Rightarrow> (Inl AttributeError, s1)
        | Some m \<Rightarrow>
            (case msg_text m of
               None \<Rightarrow> (Inl (ServiceError ''prompt''), s1)
             | Some t \<Rightarrow>
                 bind (create_image env mgr t s1) (\<lambda>(image, revised) s2.
                 reply env upd (ReplyPhoto image revised) s2))))"

definition get_message :: "env \<Rightarrow> update \<Rightarrow> world \<Rightarrow> unit outcome" where
  "get_message env upd s =
     (case update_message upd of
        None \<Rightarrow> (Inl AttributeError, s)
      | Some m \<Rightarrow>
          (case reply_to_message m of
             Some replied_text \<Rightarrow>
               bind (current_manager upd s) (\<lambda>mgr s1.
               bind (chat_message env mgr (fstr replied_text @ '' in addition to '' @ fstr (msg_text m)) s1)
                 (\<lambda>send_message s2. reply env upd (ReplyMarkdown send_message) s2))
           | None \<Rightarrow>
               (case msg_text m of
                  None \<Rightarrow> (Inl AttributeError, s)
                | Some t \<Rightarrow>
                    if contains ''draw'' (lower t) then send_image env upd s
                    else if prefix ''sk-'' t then
                      bind (reply env upd DeleteMessage s) (\<lambda>_ s1.
                      check_user env upd (Some t) s1)
                    else
                      bind (current_manager upd s) (\<lambda>mgr s1.
                      bind (chat_message env mgr t s1) (\<lambda>send_message s2.
                      reply env upd (ReplyMarkdown send_message) s2)))))"

text \<open>The downloaded bytes are written to a new file that outlives the \<^verbatim>\<open>with\<close> block.\<close>

definition download_audio_to_local :: "env \<Rightarrow> string \<Rightarrow> world \<Rightarrow> string outcome" where
  "download_audio_to_local env file s =
     (case download_as_bytearray env file of
        Some e \<Rightarrow> (Inl e, s)
      | None \<Rightarrow>
          (let tmp_file_path = tmp_name env (disk s)
           in (Inr tmp_file_path, s\<lparr>disk := insert tmp_file_path (disk s)\<rparr>)))"

text \<open>\<^verbatim>\<open>os.remove(temp_file_path)\<close>\<close>

definition os_remove :: "string \<Rightarrow> world \<Rightarrow> world" where
  "os_remove p s = s\<lparr>disk := disk s - {p}\<rparr>"

definition audio :: "env \<Rightarrow> update \<Rightarrow> world \<Rightarrow> unit outcome" where
  "audio env upd s =
     (case update_message upd of
        None \<Rightarrow> (Inl AttributeError, s)
      | Some m \<Rightarrow>
          (case msg_voice m of
             None \<Rightarrow> (Inr (), s)
           | Some voice_file_id \<Rightarrow>
               (case get_file env voice_file_id of
                  Inl e \<Rightarrow> (Inl e, s)
                | Inr file \<Rightarrow>
                    bind (download_audio_to_local env file s) (\<lambda>temp_file_path s0.
                    bind (current_manager upd s0) (\<lambda>mgr s1.
                    bind (transcribe_voice env mgr temp_file_path s1) (\<lambda>voice_text s2.
                    bind (current_manager upd s2) (\<lambda>mgr2 s3.
                    bind (chat_message env mgr2 voice_text s3) (\<lambda>answer s4.
                    bind (reply env upd (ReplyMarkdown answer) s4) (\<lambda>_ s5.
                    (Inr (), os_remove temp_file_path s5))))))))))"

definition yes_animation :: string where
  "yes_animation = ''https://i.giphy.com/media/v1.Y2lkPTc5MGI3NjExcHE2dzFqeTJ1ZmlybDJzcmQ2dWdkaHk0NXp6ejI5M2lodTNveGh1biZlcD12MV9pbnRlcm5hbF9naWZfYnlfaWQmY3Q9Zw/06yiZTyUNXmdSFlutV/giphy.gif''"

definition no_animation :: string where
  "no_animation = ''https://i.giphy.com/media/v1.Y2lkPTc5MGI3NjExNmc5dWQ2dTc4dTNvMnpyNGdjaHFxbXl2dHQwamlsaGJ0bGxtcHplOCZlcD12MV9pbnRlcm5hbF9naWZfYnlfaWQmY3Q9Zw/9kzGqfk7xgN0AZw3jo/giphy.gif''"

definition button :: "env \<Rightarrow> update \<Rightarrow> world \<Rightarrow> unit outcome" where
  "button env upd s =
     (case upd of
        Message m \<Rightarrow> (Inl AttributeError, s)
      | CallbackQuery uid query_data \<Rightarrow>
          bind (send env AnswerQuery s) (\<lambda>_ s1.
            if query_data = ''yes'' then
              bind (send env (ReplyText ''OK. Let's Start'') s1) (\<lambda>_ s2.
              bind (send env (ReplyAnimation yes_animation) s2) (\<lambda>_ s3.
              send env (ReplyText ''Write your API Key'') s3))
            else
              bind (send env (ReplyText ''OK. See you later!'') s1) (\<lambda>_ s2.
              send env (ReplyAnimation no_animation) s2)))"

text \<open>\<^verbatim>\<open>context.user_data.pop(user)\<close>\<close>

definition pop_manager :: "update \<Rightarrow> nat \<Rightarrow> world \<Rightarrow> world" where
  "pop_manager upd u s =
     s\<lparr>user_data := (user_data s)(effective_user upd := (user_data s (effective_user upd))(u := None))\<rparr>"

definition off :: "env \<Rightarrow> update \<Rightarrow> world \<Rightarrow> unit outcome" where
  "off env upd s =
     (case user s of
        None \<Rightarrow> (Inl NameError, s)
      | Some u \<Rightarrow>
          if user_data s (effective_user upd) u \<noteq> None
          then reply env upd (ReplyText ''Your API Key deleted'') (pop_manager upd u s)
          else (Inr (), s))"

definition error_message :: "env \<Rightarrow> update \<Rightarrow> world \<Rightarrow> unit outcome" where
  "error_message env upd s =
     (case user s of
        None \<Rightarrow> (Inl NameError, s)
      | Some u \<Rightarrow>
          if user_data s (effective_user upd) u = None then start env upd s
          else reply env upd (ReplyText ''An error occurred please try again later'') s)"

section \<open>Dispatch (main)\<close>

text \<open>
  The procedures of the orchestrator that take an update and a context, and the ones
  among them that \<^verbatim>\<open>configure_handlers\<close> registers, in its order. The framework gives
  an update to the first registered handler that accepts it and drops an update that no
  handler accepts. An exception that a handler raises goes to the error handler, and an
  exception of the error handler itself is logged and dropped.
\<close>

datatype callback =
    Cb_start | Cb_hello | Cb_handle_file | Cb_get_message | Cb_send_image
  | Cb_audio | Cb_question | Cb_button | Cb_off | Cb_error_message

fun run :: "callback \<Rightarrow> env \<Rightarrow> update \<Rightarrow> world \<Rightarrow> unit outcome" where
  "run Cb_start env upd s = start env upd s"
| "run Cb_hello env upd s = hello env upd s"
| "run Cb_handle_file env upd s = handle_file env upd s"
| "run Cb_get_message env upd s = get_message env upd s"
| "run Cb_send_image env upd s = send_image env upd s"
| "run Cb_audio env upd s = audio env upd s"
| "run Cb_question env upd s = question env upd s"
| "run Cb_button env upd s = button env upd s"
| "run Cb_off env upd s = off env upd s"
| "run Cb_error_message env upd s = error_message env upd s"

datatype handler =
    CallbackQueryHandler
  | CommandHandler string
  | MessageHandler_VOICE
  | MessageHandler_Document_ALL
  | MessageHandler_TEXT_and_not_COMMAND

fun accepts :: "handler \<Rightarrow> update \<Rightarrow> bool" where
  "accepts CallbackQueryHandler (CallbackQuery uid d) = True"
| "accepts (CommandHandler c) (Message m) = (map_option lower (bot_command m) = Some c)"
| "accepts MessageHandler_VOICE (Message m) = (msg_voice m \<noteq> None)"
| "accepts MessageHandler_Document_ALL (Message m) = (msg_document m \<noteq> None)"
| "accepts MessageHandler_TEXT_and_not_COMMAND (Message m) =
     (msg_text m \<noteq> None \<and> msg_text m \<noteq> Some [] \<and> bot_command m = None)"
| "accepts h upd = False"

definition configure_handlers :: "(handler \<times> callback) list" where
  "configure_handlers =
     [(CallbackQueryHandler, Cb_button),
      (CommandHandler ''start'', Cb_start),
      (MessageHandler_VOICE, Cb_audio),
      (MessageHandler_Document_ALL, Cb_handle_file),
      (MessageHandler_TEXT_and_not_COMMAND, Cb_get_message)]"

definition process_update :: "env \<Rightarrow> update \<Rightarrow> world \<Rightarrow> world" where
  "process_update env upd s =
     (case find (\<lambda>(h, cb). accepts h upd) configure_handlers of
        None \<Rightarrow> s
      | Some (h, cb) \<Rightarrow>
          (case run cb env upd s of
             (Inr _, s1) \<Rightarrow> s1
           | (Inl e, s1) \<Rightarrow> snd (error_message env upd s1)))"

section \<open>The template of the specification\<close>

text \<open>
  The prompt as the specification words it, to be compared with \<open>final_prompt\<close>: three
  lines without indentation, nothing after the last full stop. The specification shows
  it between double quotes; both readings are given.
\<close>

definition spec_template :: "string \<Rightarrow> string \<Rightarrow> string" where
  "spec_template qn ctx =
     ''Here is your question: '' @ qn @
     ''\<newline>We have the following information to answer it: '' @ ctx @
     ''.\<newline>Use only the information provided here to answer the question. Do not go beyond this.''"

definition spec_template_quoted :: "string \<Rightarrow> string \<Rightarrow> string" where
  "spec_template_quoted qn ctx = [CHR 0x22] @ spec_template qn ctx @ [CHR 0x22]"

section \<open>Concrete inputs\<close>

text \<open>
  A sample environment: only the key \<open>sk-abc123xyz\<close> is valid, the chat model echoes,
  transcription fails, Telegram accepts every request, the splitter returns its input as
  one chunk and the retriever returns all chunks.
\<close>

definition env0 :: env where
  "env0 =
     \<lparr>models_list = (\<lambda>k. if k = ''sk-abc123xyz'' then None else Some (ServiceError ''invalid key'')),
      chat_completion = (\<lambda>k p. Inr (''answer to '' @ p)),
      transcription = (\<lambda>k p. Inl (ServiceError ''transcription failed'')),
      images_generate = (\<lambda>k p. Inr (''https://img'', p)),
      telegram = (\<lambda>tr e. None),
      get_file = (\<lambda>fid. Inr (''https://files/'' @ fid)),
      download_as_bytearray = (\<lambda>file. None),
      requests_get = (\<lambda>url. Inr ''some text''),
      pdf_load = (\<lambda>path. Inr [''page one'', ''page two'']),
      split_text = (\<lambda>t. [t]),
      retrieve = (\<lambda>k chunks q. Inr chunks),
      tmp_name = (\<lambda>d. ''/tmp/tmpvoice.ogg'')\<rparr>"

text \<open>
  Telegram refuses a Markdown text with an underscore (an entity that is opened and never
  closed) and accepts every other request.
\<close>

definition env_markdown :: env where
  "env_markdown =
     env0\<lparr>telegram := (\<lambda>tr e. case e of
        ReplyMarkdown t \<Rightarrow>
          if CHR ''_'' \<in> set t then Some (ServiceError ''cannot parse entities'') else None
      | _ \<Rightarrow> None)\<rparr>"


definition mgr0 :: manager where
  "mgr0 = \<lparr>api_key = ''sk-abc123xyz''\<rparr>"

text \<open>User 7 has run \<^verbatim>\<open>/start\<close>; in \<open>w_active\<close> a session is stored, in \<open>w_awaiting\<close> none.\<close>

definition w_awaiting :: world where
  "w_awaiting =
     \<lparr>user = Some 7, user_name = Some ''Ada'', user_data = (\<lambda>uid. Map.empty),
      disk = {}, trace = []\<rparr>"

text \<open>The same for a user whose full name has an underscore.\<close>

definition w_awaiting_underscore :: world where
  "w_awaiting_underscore = w_awaiting\<lparr>user_name := Some ''Ada_L''\<rparr>"

text \<open>No user has run \<^verbatim>\<open>/start\<close> since the process began.\<close>

definition w_fresh :: world where
  "w_fresh =
     \<lparr>user = None, user_name = None, user_data = (\<lambda>uid. Map.empty), disk = {}, trace = []\<rparr>"

definition w_active :: world where
  "w_active =
     \<lparr>user = Some 7, user_name = Some ''Ada'',
      user_data = (\<lambda>uid. if uid = 7 then [7 \<mapsto> mgr0] else Map.empty),
      disk = {}, trace = []\<rparr>"

definition text_message :: "string \<Rightarrow> message" where
  "text_message t =
     \<lparr>from_user_id = 7, from_user_full_name = ''Ada'', msg_text = Some t, msg_caption = None,
      msg_voice = None, msg_document = None, reply_to_message = None, bot_command = None\<rparr>"

definition voice_message :: message where
  "voice_message = (text_message [])\<lparr>msg_text := None, msg_voice := Some ''voice1''\<rparr>"

definition document_message :: "string \<Rightarrow> message" where
  "document_message mime =
     (text_message [])\<lparr>msg_text := None,
        msg_document := Some \<lparr>file_id = ''doc1'', mime_type = Some mime\<rparr>\<rparr>"

text \<open>A valid key sent by the user whose full name has an underscore.\<close>

definition key_message_underscore :: message where
  "key_message_underscore = (text_message ''sk-abc123xyz'')\<lparr>from_user_full_name := ''Ada_L''\<rparr>"

text \<open>The command \<^verbatim>\<open>/start\<close> from that user.\<close>

definition start_command_underscore :: message where
  "start_command_underscore =
     (text_message ''/start'')\<lparr>from_user_full_name := ''Ada_L'', bot_command := Some ''start''\<rparr>"

definition off_message :: message where
  "off_message = (text_message ''/off'')\<lparr>bot_command := Some ''off''\<rparr>"

text \<open>A reply to an earlier message whose own text looks like a key and mentions drawing.\<close>

definition reply_message_sk :: message where
  "reply_message_sk =
     (text_message ''sk-abc123xyz draw'')\<lparr>reply_to_message := Some (Some ''earlier'')\<rparr>"

section \<open>Reading the trace\<close>

text \<open>The events of the key-entry branch and of the image branch of \<^verbatim>\<open>get_message\<close>.\<close>

fun key_or_image_events :: "event list \<Rightarrow> event list" where
  "key_or_image_events [] = []"
| "key_or_image_events (DeleteMessage # es) = DeleteMessage # key_or_image_events es"
| "key_or_image_events (CheckApiKey k # es) = CheckApiKey k # key_or_image_events es"
| "key_or_image_events (CreateImage k p # es) = CreateImage k p # key_or_image_events es"
| "key_or_image_events (e # es) = key_or_image_events es"

text \<open>The calls of the two retrieval operations.\<close>

fun rag_calls :: "event list \<Rightarrow> event list" where
  "rag_calls [] = []"
| "rag_calls (RagWithDocuments k f p # es) = RagWithDocuments k f p # rag_calls es"
| "rag_calls (RagWithDocumentsFromText k t p # es) = RagWithDocumentsFromText k t p # rag_calls es"
| "rag_calls (e # es) = rag_calls es"


section \<open>Basic facts\<close>

lemma emit_fields [simp]:
  "user (emit e s) = user s"
  "user_name (emit e s) = user_name s"
  "user_data (emit e s) = user_data s"
  "disk (emit e s) = disk s"
  "trace (emit e s) = trace s @ [e]"
  by (simp_all add: emit_def)

lemma validated_keys_append [simp]:
  "validated_keys (xs @ ys) = validated_keys xs @ validated_keys ys"
  by (induction xs rule: validated_keys.induct) simp_all

lemma chat_prompts_append [simp]:
  "chat_prompts (xs @ ys) = chat_prompts xs @ chat_prompts ys"
  by (induction xs rule: chat_prompts.induct) simp_all

lemma rag_questions_append [simp]:
  "rag_questions (xs @ ys) = rag_questions xs @ rag_questions ys"
  by (induction xs rule: rag_questions.induct) simp_all

lemma key_or_image_events_append [simp]:
  "key_or_image_events (xs @ ys) = key_or_image_events xs @ key_or_image_events ys"
  by (induction xs rule: key_or_image_events.induct) simp_all

lemma rag_calls_append [simp]:
  "rag_calls (xs @ ys) = rag_calls xs @ rag_calls ys"
  by (induction xs rule: rag_calls.induct) simp_all

lemma bind_Inl [simp]: "bind (Inl e, s) f = (Inl e, s)"
  by (simp add: bind_def)

lemma bind_Inr [simp]: "bind (Inr x, s) f = f x s"
  by (simp add: bind_def)

lemma reply_Message [simp]: "reply env (Message m) e s = send env e s"
  by (simp add: reply_def)

lemma send_accepted: "telegram env (trace s) e = None \<Longrightarrow> send env e s = (Inr (), emit e s)"
  by (simp add: send_def)

lemma send_refused: "telegram env (trace s) e = Some err \<Longrightarrow> send env e s = (Inl err, s)"
  by (simp add: send_def)

lemma send_fields [simp]:
  "user (snd (send env e s)) = user s"
  "user_name (snd (send env e s)) = user_name s"
  "user_data (snd (send env e s)) = user_data s"
  "disk (snd (send env e s)) = disk s"
  by (simp_all add: send_def split: option.splits)


lemma current_manager_world [simp]: "snd (current_manager upd s) = s"
  by (simp add: current_manager_def split: option.splits)

section \<open>Voice messages and the transient audio file\<close>

text \<open>
  When \<^verbatim>\<open>audio\<close> returns, the file it downloaded is gone; when it raises after the
  download, the file is still there.
\<close>

lemma audio_success_removes_file:
  assumes "msg_voice m = Some fid" and "fst (audio env (Message m) s) = Inr ()"
  shows "tmp_name env (disk s) \<notin> disk (snd (audio env (Message m) s))"
  using assms
  by (auto simp add: audio_def download_audio_to_local_def Let_def bind_def current_manager_def
      transcribe_voice_def chat_message_def os_remove_def send_def
      split: option.splits sum.splits)

lemma audio_exception_keeps_file:
  assumes "msg_voice m = Some fid" and "get_file env fid = Inr file"
    and "download_as_bytearray env file = None" and "fst (audio env (Message m) s) = Inl e"
  shows "tmp_name env (disk s) \<in> disk (snd (audio env (Message m) s))"
  using assms
  by (auto simp add: audio_def download_audio_to_local_def Let_def bind_def current_manager_def
      transcribe_voice_def chat_message_def os_remove_def send_def
      split: option.splits sum.splits)

text \<open>
  Claim C1 says that the audio file downloaded for a voice message is gone when the
  handler is done, also when transcription or chat raise. \<^verbatim>\<open>audio\<close> removes the file
  as its last statement and has no \<^verbatim>\<open>finally\<close>: with a session stored and a
  transcription that fails, the handler raises, and the file is on disk after the
  handler and after the error handler.
\<close>

theorem audio_failure_keeps_file:
  "fst (audio env0 (Message voice_message) w_active) = Inl (ServiceError ''transcription failed'') \<and>
   ''/tmp/tmpvoice.ogg'' \<in> disk (snd (audio env0 (Message voice_message) w_active)) \<and>
   ''/tmp/tmpvoice.ogg'' \<in> disk (process_update env0 (Message voice_message) w_active)"
  by (simp add: audio_def process_update_def configure_handlers_def voice_message_def text_message_def
      w_active_def env0_def download_audio_to_local_def current_manager_def transcribe_voice_def
      error_message_def mgr0_def Let_def bind_def send_def)

section \<open>The command that forgets the key\<close>

text \<open>
  Claim C6 says that the forget-key command removes the session of an active user, tells
  the user so, and is reached through the dispatch of updates. \<^verbatim>\<open>off\<close> does the first
  two, and \<open>start_message\<close> announces \<^verbatim>\<open>/off\<close> to the user, but \<^verbatim>\<open>configure_handlers\<close>
  does not register it: the update \<^verbatim>\<open>/off\<close> of an active user is dropped and the session
  stays.
\<close>

theorem off_command_not_dispatched:
  "Cb_off \<notin> snd ` set configure_handlers \<and>
   process_update env (Message off_message) w_active = w_active \<and>
   user_data (process_update env (Message off_message) w_active) 7 7 = Some mgr0 \<and>
   fst (off env0 (Message off_message) w_active) = Inr () \<and>
   user_data (snd (off env (Message off_message) w_active)) 7 7 = None"
  by (simp add: configure_handlers_def process_update_def off_message_def text_message_def
      w_active_def off_def pop_manager_def lower_def lower_char_def send_def env0_def
      split: option.splits)

section \<open>Validating a key and storing the session\<close>

text \<open>
  \<^verbatim>\<open>check_user\<close> is called with a non-empty key \<open>k\<close> while the current user \<open>u\<close> has no
  session in the sender's dictionary. If the key check fails with \<open>e\<close>, the call raises
  \<open>e\<close>, the session map is the one before the call and nothing but the check is in the
  trace: no echo.
\<close>

lemma check_user_invalid_key:
  assumes "user s = Some u" and "user_data s (from_user_id m) u = None" and "k \<noteq> []"
    and "models_list env k = Some e"
  shows "check_user env (Message m) (Some k) s = (Inl e, emit (CheckApiKey k) s)"
  using assms
  by (simp add: check_user_def OpenAIModelManager_def check_api_key_def Let_def)

text \<open>
  If the check succeeds and Telegram accepts the echo and the greeting that follow it,
  the manager built from \<open>k\<close> is stored under \<open>u\<close>.
\<close>

lemma check_user_valid_key_stored:
  assumes "user s = Some u" and "user_data s (from_user_id m) u = None" and "k \<noteq> []"
    and "user_name s = Some n" and "models_list env k = None"
    and "telegram env (trace s @ [CheckApiKey k]) (ReplyText (key_echo k)) = None"
    and "telegram env (trace s @ [CheckApiKey k, ReplyText (key_echo k)])
           (ReplyMarkdown (''Hello '' @ n @ '' , What Can I Help With ?'')) = None"
  shows "fst (check_user env (Message m) (Some k) s) = Inr () \<and>
         user_data (snd (check_user env (Message m) (Some k) s)) =
           (user_data s)(from_user_id m := (user_data s (from_user_id m))(u \<mapsto> \<lparr>api_key = k\<rparr>))"
  using assms
  by (simp add: check_user_def OpenAIModelManager_def check_api_key_def hello_def
      store_manager_def Let_def send_def)

text \<open>
  Claim C3 says that a session is created atomically: nothing is stored when the key
  check fails, and the session is stored when it succeeds. \<^verbatim>\<open>check_user\<close> stores the
  manager as its last statement, after the echo and the greeting. For a user whose full
  name has an underscore the greeting does not parse as Markdown. The command
  \<^verbatim>\<open>/start\<close> of this user binds the two globals and raises at its first reply; when the
  user then sends a valid key, the key is checked, the echo with \<^verbatim>\<open>success\<close> is sent,
  the greeting raises, and no session is stored, neither after \<^verbatim>\<open>check_user\<close> nor after
  the whole processing of the message.
\<close>

theorem valid_key_echoed_but_not_stored:
  "process_update env_markdown (Message start_command_underscore) w_fresh = w_awaiting_underscore \<and>
   fst (check_user env_markdown (Message key_message_underscore) (Some ''sk-abc123xyz'')
          w_awaiting_underscore) = Inl (ServiceError ''cannot parse entities'') \<and>
   trace (snd (check_user env_markdown (Message key_message_underscore) (Some ''sk-abc123xyz'')
          w_awaiting_underscore)) =
     [CheckApiKey ''sk-abc123xyz'', ReplyText ''Key : sk-*************xyz success''] \<and>
   user_data (snd (check_user env_markdown (Message key_message_underscore) (Some ''sk-abc123xyz'')
          w_awaiting_underscore)) 7 7 = None \<and>
   user_data (process_update env_markdown (Message key_message_underscore) w_awaiting_underscore) 7 7 = None"
  by (simp add: check_user_def OpenAIModelManager_def check_api_key_def hello_def key_echo_def
      store_manager_def Let_def send_def env_markdown_def env0_def w_awaiting_underscore_def
      w_awaiting_def key_message_underscore_def text_message_def process_update_def
      configure_handlers_def get_message_def lower_def lower_char_def error_message_def
      start_def greeting_def bind_def start_command_underscore_def w_fresh_def)

section \<open>Text messages\<close>

subsection \<open>Which handlers validate a key\<close>

lemma bind_keys:
  assumes "validated_keys (trace (snd r)) = validated_keys (trace s)"
    and "\<And>x s1. validated_keys (trace (snd (f x s1))) = validated_keys (trace s1)"
  shows "validated_keys (trace (snd (bind r f))) = validated_keys (trace s)"
  using assms by (cases r) (auto simp add: bind_def split: sum.splits)

lemma send_silent:
  "validated_keys [e] = [] \<Longrightarrow>
   validated_keys (trace (snd (send env e s))) = validated_keys (trace s)"
  by (simp add: send_def split: option.splits)

lemma reply_silent:
  "validated_keys [e] = [] \<Longrightarrow>
   validated_keys (trace (snd (reply env upd e s))) = validated_keys (trace s)"
  by (simp add: reply_def send_silent split: option.splits)

lemma hello_keys [simp]:
  "validated_keys (trace (snd (hello env upd s))) = validated_keys (trace s)"
  by (simp add: hello_def send_silent split: option.splits)

lemma question_keys [simp]:
  "validated_keys (trace (snd (question env upd s))) = validated_keys (trace s)"
  by (simp add: question_def reply_silent)

lemma check_user_None_keys [simp]:
  "validated_keys (trace (snd (check_user env upd None s))) = validated_keys (trace s)"
  by (auto simp add: check_user_def Let_def reply_silent intro!: bind_keys split: option.splits)

lemma start_keys [simp]:
  "validated_keys (trace (snd (start env upd s))) = validated_keys (trace s)"
  by (auto simp add: start_def Let_def send_silent intro!: bind_keys split: option.splits)

lemma error_message_keys [simp]:
  "validated_keys (trace (snd (error_message env upd s))) = validated_keys (trace s)"
  by (simp add: error_message_def reply_silent split: option.splits)

lemma send_image_keys [simp]:
  "validated_keys (trace (snd (send_image env upd s))) = validated_keys (trace s)"
  by (auto simp add: send_image_def create_image_def reply_silent
      intro!: bind_keys split: option.splits prod.splits)

lemma rag_with_documents_keys [simp]:
  "validated_keys (trace (snd (rag_with_documents env mgr f q s))) = validated_keys (trace s)"
  by (simp add: rag_with_documents_def chat_message_def Let_def split: sum.splits)

lemma rag_with_documents_from_text_keys [simp]:
  "validated_keys (trace (snd (rag_with_documents_from_text env mgr f q s))) = validated_keys (trace s)"
  by (simp add: rag_with_documents_from_text_def chat_message_def Let_def split: sum.splits)

lemma handle_file_keys [simp]:
  "validated_keys (trace (snd (handle_file env upd s))) = validated_keys (trace s)"
  by (auto simp add: handle_file_def Let_def reply_silent
      intro!: bind_keys split: option.splits sum.splits)

lemma download_audio_to_local_keys [simp]:
  "validated_keys (trace (snd (download_audio_to_local env file s))) = validated_keys (trace s)"
  by (simp add: download_audio_to_local_def Let_def split: option.splits)

lemma audio_keys [simp]:
  "validated_keys (trace (snd (audio env upd s))) = validated_keys (trace s)"
  by (auto simp add: audio_def reply_silent transcribe_voice_def chat_message_def os_remove_def
      intro!: bind_keys split: option.splits sum.splits)

lemma button_keys [simp]:
  "validated_keys (trace (snd (button env upd s))) = validated_keys (trace s)"
  by (auto simp add: button_def send_silent intro!: bind_keys split: update.splits)

lemma get_message_keys:
  assumes "msg_text m = Some t" and "\<not> prefix ''sk-'' t"
  shows "validated_keys (trace (snd (get_message env (Message m) s))) = validated_keys (trace s)"
  using assms
  by (auto simp add: get_message_def chat_message_def send_silent
      intro!: bind_keys split: option.splits)

lemma configured_callbacks:
  "find (\<lambda>(h, cb). accepts h upd) configure_handlers = Some (h, cb) \<Longrightarrow>
   cb = Cb_button \<or> cb = Cb_start \<or> cb = Cb_audio \<or> cb = Cb_handle_file \<or>
   (cb = Cb_get_message \<and> h = MessageHandler_TEXT_and_not_COMMAND)"
  by (auto simp add: configure_handlers_def split: if_splits)

text \<open>
  Claim C8: a text that does not begin with \<^verbatim>\<open>sk-\<close> is never given to key validation,
  whatever the state. In every world and every environment, neither \<^verbatim>\<open>get_message\<close> nor
  the whole processing of the update (the handler the dispatch selects, then the error
  handler if it raised) adds a key check to the trace.
\<close>

theorem no_validation_without_sk_prefix:
  assumes "msg_text m = Some t" and "\<not> prefix ''sk-'' t"
  shows "validated_keys (trace (snd (get_message env (Message m) s))) = validated_keys (trace s) \<and>
         validated_keys (trace (process_update env (Message m) s)) = validated_keys (trace s)"
proof
  show "validated_keys (trace (snd (get_message env (Message m) s))) = validated_keys (trace s)"
    using assms by (rule get_message_keys)
next
  have run: "validated_keys (trace (snd (run cb env (Message m) s))) = validated_keys (trace s)"
    if "find (\<lambda>(h, cb). accepts h (Message m)) configure_handlers = Some (h, cb)" for h cb
    using configured_callbacks [OF that] get_message_keys [OF assms] by auto
  show "validated_keys (trace (process_update env (Message m) s)) = validated_keys (trace s)"
  proof (cases "find (\<lambda>(h, cb). accepts h (Message m)) configure_handlers")
    case None
    then show ?thesis by (simp add: process_update_def)
  next
    case (Some hc)
    obtain h cb where hc: "hc = (h, cb)" by (cases hc)
    obtain r s1 where r: "run cb env (Message m) s = (r, s1)" by (cases "run cb env (Message m) s")
    have "validated_keys (trace s1) = validated_keys (trace s)"
      using run [of h cb] Some hc r by simp
    then show ?thesis
      using Some hc r by (cases r) (simp_all add: process_update_def)
  qed
qed

text \<open>A user who was asked for a key and writes something else.\<close>

theorem no_validation_without_sk_prefix_witness:
  "validated_keys (trace (snd (get_message env0 (Message (text_message ''my key is abc'')) w_awaiting))) = [] \<and>
   validated_keys (trace (process_update env0 (Message (text_message ''my key is abc'')) w_awaiting)) = []"
proof -
  have h: "msg_text (text_message ''my key is abc'') = Some ''my key is abc''"
    "\<not> prefix ''sk-'' ''my key is abc''"
    by (simp_all add: text_message_def)
  show ?thesis
    using no_validation_without_sk_prefix [OF h, of env0 w_awaiting]
    by (simp add: w_awaiting_def)
qed

subsection \<open>Key entry\<close>

text \<open>
  What the key-entry branch of \<^verbatim>\<open>get_message\<close> does when it is reached: the message is
  deleted and, for a current user without a session, the text is checked as a key.
\<close>

lemma key_entry_deletes_and_validates:
  assumes "reply_to_message m = None" and "msg_text m = Some t" and "prefix ''sk-'' t"
    and "\<not> contains ''draw'' (lower t)"
    and "telegram env (trace s) DeleteMessage = None"
    and "user s = Some u" and "user_data s (from_user_id m) u = None"
  shows "\<exists>rest. trace (snd (get_message env (Message m) s)) =
           trace s @ DeleteMessage # CheckApiKey t # rest"
proof -
  have t: "t \<noteq> []" using assms(3) by auto
  show ?thesis
    using assms t
    by (auto simp add: get_message_def send_def check_user_def OpenAIModelManager_def
        check_api_key_def hello_def store_manager_def Let_def bind_def split: option.splits)
qed

text \<open>
  Claim C2 says that every text beginning with \<^verbatim>\<open>sk-\<close> is taken as a key: deleted from
  the chat and validated. \<^verbatim>\<open>get_message\<close> tests for \<^verbatim>\<open>draw\<close> before it tests for
  \<^verbatim>\<open>sk-\<close>, so a key that contains these four letters never reaches the key-entry
  branch. From a user without a session it raises \<^verbatim>\<open>KeyError\<close> with nothing deleted and
  nothing validated, also after the error handler; from a user with a session it is
  sent to image generation as a prompt and stays in the chat.
\<close>

theorem key_with_draw_goes_to_image:
  "fst (get_message env0 (Message (text_message ''sk-withdraw42'')) w_awaiting) = Inl KeyError \<and>
   trace (snd (get_message env0 (Message (text_message ''sk-withdraw42'')) w_awaiting)) = [] \<and>
   validated_keys (trace (process_update env0 (Message (text_message ''sk-withdraw42'')) w_awaiting)) = [] \<and>
   DeleteMessage \<notin> set (trace (process_update env0 (Message (text_message ''sk-withdraw42'')) w_awaiting)) \<and>
   trace (snd (get_message env0 (Message (text_message ''sk-withdraw42'')) w_active)) =
     [CreateImage ''sk-abc123xyz'' ''sk-withdraw42'', ReplyPhoto ''https://img'' ''sk-withdraw42'']"
  by (simp add: get_message_def send_image_def current_manager_def create_image_def
      process_update_def configure_handlers_def error_message_def start_def check_user_def
      question_def reply_def send_def bind_def Let_def
      text_message_def w_awaiting_def w_active_def env0_def lower_def lower_char_def mgr0_def)

subsection \<open>Replies to an earlier message\<close>

text \<open>
  Claim C9 says that a reply to an earlier message always goes to the chat operation.
  The handler first looks up the session of the current user: without a session the
  lookup raises \<^verbatim>\<open>KeyError\<close> and no chat call is made.
\<close>

theorem reply_without_session_no_chat:
  "fst (get_message env0 (Message reply_message_sk) w_awaiting) = Inl KeyError \<and>
   chat_prompts (trace (snd (get_message env0 (Message reply_message_sk) w_awaiting))) = []"
  by (simp add: get_message_def current_manager_def reply_message_sk_def text_message_def
      w_awaiting_def)

text \<open>
  Claim C9, amended: for a reply to an earlier message, whatever its text, the handler
  takes neither the image branch nor the key-entry branch (no image call, no deletion,
  no key check). When no current user is set, the handler raises \<^verbatim>\<open>NameError\<close> and does
  nothing else; when the current user has no session, it raises \<^verbatim>\<open>KeyError\<close> and does
  nothing else: no chat call in either case. When the current user has a session, the
  handler calls the chat operation with the replied text, \<^verbatim>\<open> in addition to \<close> and the
  text of the message, and then sends the answer, if the chat operation returned one
  and Telegram accepts it.
\<close>

theorem reply_routes_to_chat:
  assumes "reply_to_message m = Some r"
  shows "key_or_image_events (trace (snd (get_message env (Message m) s))) =
           key_or_image_events (trace s) \<and>
         (user s = None \<longrightarrow> get_message env (Message m) s = (Inl NameError, s)) \<and>
         (\<forall>u. user s = Some u \<longrightarrow> user_data s (from_user_id m) u = None \<longrightarrow>
            get_message env (Message m) s = (Inl KeyError, s)) \<and>
         (\<forall>u mgr. user s = Some u \<longrightarrow> user_data s (from_user_id m) u = Some mgr \<longrightarrow>
            trace (snd (get_message env (Message m) s)) =
              trace s @ ChatMessage (api_key mgr) (fstr r @ '' in addition to '' @ fstr (msg_text m)) #
                (case chat_completion env (api_key mgr) (fstr r @ '' in addition to '' @ fstr (msg_text m)) of
                   Inl e \<Rightarrow> []
                 | Inr a \<Rightarrow>
                     (case telegram env
                        (trace s @ [ChatMessage (api_key mgr) (fstr r @ '' in addition to '' @ fstr (msg_text m))])
                        (ReplyMarkdown a) of
                        None \<Rightarrow> [ReplyMarkdown a]
                      | Some err \<Rightarrow> [])))"
  using assms
  by (auto simp add: get_message_def current_manager_def chat_message_def bind_def send_def
      split: option.splits sum.splits)

text \<open>
  A reply whose text begins with \<^verbatim>\<open>sk-\<close> and contains \<^verbatim>\<open>draw\<close>: from an active user,
  from a user without a session, and before any user has run \<^verbatim>\<open>/start\<close>.
\<close>

theorem reply_routes_to_chat_witness:
  "trace (snd (get_message env0 (Message reply_message_sk) w_active)) =
     [ChatMessage ''sk-abc123xyz'' ''earlier in addition to sk-abc123xyz draw'',
      ReplyMarkdown ''answer to earlier in addition to sk-abc123xyz draw''] \<and>
   get_message env0 (Message reply_message_sk) w_awaiting = (Inl KeyError, w_awaiting) \<and>
   get_message env0 (Message reply_message_sk) w_fresh = (Inl NameError, w_fresh)"
proof -
  have h: "reply_to_message reply_message_sk = Some (Some ''earlier'')"
    by (simp add: reply_message_sk_def)
  have a: "user w_active = Some 7" "user_data w_active 7 7 = Some mgr0" "trace w_active = []"
    by (simp_all add: w_active_def)
  have b: "user w_awaiting = Some 7" "user_data w_awaiting 7 7 = None" "trace w_awaiting = []"
    by (simp_all add: w_awaiting_def)
  have c: "user w_fresh = None"
    by (simp add: w_fresh_def)
  show ?thesis
    using reply_routes_to_chat [OF h, of env0 w_active]
      reply_routes_to_chat [OF h, of env0 w_awaiting]
      reply_routes_to_chat [OF h, of env0 w_fresh]
    by (simp add: a b c reply_message_sk_def text_message_def env0_def mgr0_def)
qed

section \<open>Documents\<close>

lemma foldl_append_concat: "foldl (\<lambda>acc d. acc @ d) acc xs = acc @ concat xs"
  by (induction xs arbitrary: acc) simp_all

lemma context_data_concat: "context_data docs = concat docs"
  by (simp add: context_data_def foldl_append_concat)



lemma rag_text_questions:
  "rag_questions (trace (snd (rag_with_documents_from_text env mgr content q s))) =
     rag_questions (trace s) @ [q]"
  by (simp add: rag_with_documents_from_text_def chat_message_def Let_def split: sum.splits)

lemma rag_file_questions:
  "rag_questions (trace (snd (rag_with_documents env mgr path q s))) =
     rag_questions (trace s) @ [q]"
  by (simp add: rag_with_documents_def chat_message_def Let_def split: sum.splits)


lemma bind_reply_questions:
  "rag_questions (trace (snd (bind r (\<lambda>msg s2. reply env (Message m) (ReplyText msg) s2)))) =
   rag_questions (trace (snd r))"
  by (cases r) (auto simp add: bind_def send_def split: sum.splits option.splits)




text \<open>
  Claim C10: for a document without a caption, the question given to the retrieval flow
  is \<^verbatim>\<open>Summarize this file\<close>. In every world the handler adds no retrieval call or one
  with that question; it adds one when the current user has a session, the file is
  resolved and the document is a PDF, or is plain text whose download succeeds.
\<close>

theorem handle_file_default_question:
  assumes "msg_caption m = None"
  shows "(rag_questions (trace (snd (handle_file env (Message m) s))) = rag_questions (trace s) \<or>
          rag_questions (trace (snd (handle_file env (Message m) s))) =
            rag_questions (trace s) @ [''Summarize this file'']) \<and>
         (\<forall>u mgr d path. user s = Some u \<longrightarrow> user_data s (from_user_id m) u = Some mgr \<longrightarrow>
            msg_document m = Some d \<longrightarrow> get_file env (file_id d) = Inr path \<longrightarrow>
            mime_type d = Some ''application/pdf'' \<or>
            (mime_type d = Some ''text/plain'' \<and>
             (\<exists>content. requests_get env path = Inr content)) \<longrightarrow>
            rag_questions (trace (snd (handle_file env (Message m) s))) =
              rag_questions (trace s) @ [''Summarize this file''])"
  using assms
  by (auto simp add: handle_file_def Let_def current_manager_def
      bind_reply_questions rag_text_questions rag_file_questions send_def
      split: option.splits sum.splits)

text \<open>A PDF and a text file without a caption, from an active user.\<close>

theorem handle_file_default_question_witness:
  "rag_questions (trace (snd (handle_file env0 (Message (document_message ''application/pdf'')) w_active))) =
     [''Summarize this file''] \<and>
   rag_questions (trace (snd (handle_file env0 (Message (document_message ''text/plain'')) w_active))) =
     [''Summarize this file'']"
proof -
  have a: "msg_caption (document_message mime) = None" for mime
    by (simp add: document_message_def text_message_def)
  show ?thesis
    using handle_file_default_question [OF a, of env0 "''application/pdf''" w_active]
      handle_file_default_question [OF a, of env0 "''text/plain''" w_active]
    by (simp add: env0_def mgr0_def document_message_def text_message_def w_active_def)
qed

section \<open>The prompt of the retrieval flow\<close>

text \<open>
  Claim C5 says that the prompt sent to the chat operation equals the template of the
  specification. The prompt the code sends differs from it in both readings: its second
  and third line are indented and it ends with a line feed and blanks.
\<close>

theorem prompt_differs_from_spec_template:
  "chat_prompts (trace (snd (rag_with_documents_from_text env0 mgr0 ''doc'' ''q'' w_active))) \<noteq>
     [spec_template ''q'' ''doc''] \<and>
   chat_prompts (trace (snd (rag_with_documents_from_text env0 mgr0 ''doc'' ''q'' w_active))) \<noteq>
     [spec_template_quoted ''q'' ''doc'']"
  by (simp add: rag_with_documents_from_text_def chat_message_def split_documents_def env0_def
      context_data_def final_prompt_def spec_template_def spec_template_quoted_def w_active_def
      mgr0_def Let_def)

text \<open>
  Claim C5, amended: when retrieval returns the documents \<open>docs\<close>, each of the two
  retrieval operations makes one chat call, and its prompt is: a double quote, the
  first line with the question, a line feed and eight blanks, the second line with the
  texts of \<open>docs\<close> concatenated in their order without separator and a full stop, a line
  feed and eight blanks, the third line, a double quote, a line feed and eight blanks.
\<close>

theorem rag_prompt_exact:
  "(retrieve env (api_key mgr) (split_documents env [content]) q = Inr docs \<longrightarrow>
      chat_prompts (trace (snd (rag_with_documents_from_text env mgr content q s))) =
        chat_prompts (trace s) @
        [[CHR 0x22] @ ''Here is your question: '' @ q @
         ''\<newline>        We have the following information to answer it: '' @ concat docs @
         ''.\<newline>        Use only the information provided here to answer the question. Do not go beyond this.'' @
         [CHR 0x22] @ ''\<newline>        '']) \<and>
   (pdf_load env path = Inr pages \<longrightarrow>
    retrieve env (api_key mgr) (split_documents env pages) q = Inr docs \<longrightarrow>
      chat_prompts (trace (snd (rag_with_documents env mgr path q s))) =
        chat_prompts (trace s) @
        [[CHR 0x22] @ ''Here is your question: '' @ q @
         ''\<newline>        We have the following information to answer it: '' @ concat docs @
         ''.\<newline>        Use only the information provided here to answer the question. Do not go beyond this.'' @
         [CHR 0x22] @ ''\<newline>        ''])"
  by (simp add: rag_with_documents_from_text_def rag_with_documents_def chat_message_def
      final_prompt_def context_data_concat Let_def)

text \<open>A text of one chunk, and a PDF of two pages whose texts are joined without separator.\<close>

theorem rag_prompt_exact_witness:
  "chat_prompts (trace (snd (rag_with_documents_from_text env0 mgr0 ''ab'' ''q'' w_active))) =
     [[CHR 0x22] @ ''Here is your question: q\<newline>        We have the following information to answer it: ab.\<newline>        Use only the information provided here to answer the question. Do not go beyond this.'' @ [CHR 0x22] @ ''\<newline>        ''] \<and>
   chat_prompts (trace (snd (rag_with_documents env0 mgr0 ''f.pdf'' ''q'' w_active))) =
     [[CHR 0x22] @ ''Here is your question: q\<newline>        We have the following information to answer it: page onepage two.\<newline>        Use only the information provided here to answer the question. Do not go beyond this.'' @ [CHR 0x22] @ ''\<newline>        '']"
  using rag_prompt_exact [of env0 mgr0 "''ab''" "''q''" "[''ab'']" w_active "''f.pdf''" "[''page one'', ''page two'']"]
    rag_prompt_exact [of env0 mgr0 "''ab''" "''q''" "[''page one'', ''page two'']" w_active "''f.pdf''" "[''page one'', ''page two'']"]
  by (simp add: env0_def mgr0_def split_documents_def w_active_def)

end
